theory Spec2Isabelle
  imports Main "HOL-Library.Sublist"
begin

section \<open>Python values and faults\<close>

text \<open>
  The library handles decoded JSON: \<open>None\<close>, booleans, integers, strings, lists and
  dictionaries with string keys. A dictionary is an association list read with
  \<open>map_of\<close>. Every exception the code can raise is a value of \<open>error\<close>;
  \<open>HttpError\<close> stands for a failure of the remote API client.
\<close>

datatype error =
  ValueError | StopIteration | IndexError | KeyError | TypeError | AttributeError | HttpError

datatype pyval =
  PNone
| PBool bool
| PInt int
| PStr string
| PList "pyval list"
| PDict "(string \<times> pyval) list"

text \<open>\<open>v[k]\<close> for a string key \<open>k\<close>: only a dictionary can be subscripted by a string.\<close>

fun subscript :: "pyval \<Rightarrow> string \<Rightarrow> error + pyval" where
  "subscript (PDict kvs) k = (case map_of kvs k of None \<Rightarrow> Inl KeyError | Some v \<Rightarrow> Inr v)"
| "subscript PNone k = Inl TypeError"
| "subscript (PBool b) k = Inl TypeError"
| "subscript (PInt i) k = Inl TypeError"
| "subscript (PStr s) k = Inl TypeError"
| "subscript (PList xs) k = Inl TypeError"

text \<open>\<open>v.get(k)\<close>: the method exists on dictionaries only, and defaults to \<open>None\<close>.\<close>

fun dict_get :: "pyval \<Rightarrow> string \<Rightarrow> error + pyval" where
  "dict_get (PDict kvs) k = (case map_of kvs k of None \<Rightarrow> Inr PNone | Some v \<Rightarrow> Inr v)"
| "dict_get PNone k = Inl AttributeError"
| "dict_get (PBool b) k = Inl AttributeError"
| "dict_get (PInt i) k = Inl AttributeError"
| "dict_get (PStr s) k = Inl AttributeError"
| "dict_get (PList xs) k = Inl AttributeError"

text \<open>Truth value of an object in a condition (\<open>if v:\<close>).\<close>

fun truthy :: "pyval \<Rightarrow> bool" where
  "truthy PNone = False"
| "truthy (PBool b) = b"
| "truthy (PInt i) = (i \<noteq> 0)"
| "truthy (PStr s) = (s \<noteq> [])"
| "truthy (PList xs) = (xs \<noteq> [])"
| "truthy (PDict kvs) = (kvs \<noteq> [])"

section \<open>Filling the gaps of a response: \<open>_mark_unavailable_videos\<close>\<close>

text \<open>
  The inner \<open>while not matches\<close> loop for one \<open>vid_result\<close>. The first argument is what
  is left of \<open>vids_request_iter\<close>, the last is \<open>some_info\<close>. \<open>next\<close> on the exhausted
  iterator raises \<open>StopIteration\<close>, before \<open>vid_result["id"]\<close> is read.
\<close>

fun match_request :: "string list \<Rightarrow> pyval \<Rightarrow> pyval list \<Rightarrow> error + (string list \<times> pyval list)" where
  "match_request [] vid_result some_info = Inl StopIteration"
| "match_request (request_yt_id # it) vid_result some_info =
     (case subscript vid_result ''id'' of
        Inl e \<Rightarrow> Inl e
      | Inr response_yt_id \<Rightarrow>
          if PStr request_yt_id = response_yt_id
          then Inr (it, some_info @ [vid_result])
          else match_request it vid_result (some_info @ [PNone]))"

text \<open>The loop \<open>for vid_result in vids_result\<close>, returning the iterator and \<open>some_info\<close>.\<close>

fun for_results :: "string list \<Rightarrow> pyval list \<Rightarrow> pyval list \<Rightarrow> error + (string list \<times> pyval list)" where
  "for_results it [] some_info = Inr (it, some_info)"
| "for_results it (vid_result # vs) some_info =
     (case match_request it vid_result some_info of
        Inl e \<Rightarrow> Inl e
      | Inr (it', some_info') \<Rightarrow> for_results it' vs some_info')"

definition mark_unavailable_videos :: "string list \<Rightarrow> pyval list \<Rightarrow> error + pyval list" where
  "mark_unavailable_videos vids_requested vids_result =
     (if length vids_result = 0 then Inr (replicate (length vids_requested) PNone)
      else case for_results vids_requested vids_result [] of
             Inl e \<Rightarrow> Inl e
           | Inr (it, some_info) \<Rightarrow> Inr (some_info @ map (\<lambda>_. PNone) it))"

section \<open>The result container: class \<open>VideoMetadata\<close>\<close>

text \<open>
  The constructor's \<open>video_id\<close> is a string or a list of strings. Iterating a string
  yields its characters; an empty string and an empty list are both false in a condition.
\<close>

datatype video_id = IdStr string | IdList "string list"

fun truthy_video_id :: "video_id \<Rightarrow> bool" where
  "truthy_video_id (IdStr s) = (s \<noteq> [])"
| "truthy_video_id (IdList ids) = (ids \<noteq> [])"

fun iter_video_id :: "video_id \<Rightarrow> string list" where
  "iter_video_id (IdStr s) = map (\<lambda>c. [c]) s"
| "iter_video_id (IdList ids) = ids"

text \<open>\<open>sep.join(xs)\<close>.\<close>

fun join :: "string \<Rightarrow> string list \<Rightarrow> string" where
  "join sep [] = []"
| "join sep [x] = x"
| "join sep (x # y # ys) = x @ sep @ join sep (y # ys)"

fun convert_list_to_comma_string :: "video_id \<Rightarrow> string" where
  "convert_list_to_comma_string (IdStr ids) = ids"
| "convert_list_to_comma_string (IdList ids) = join '','' ids"

text \<open>
  The API client is an external collaborator. It is modelled by what
  \<open>client.videos().list(part=..., fields=..., id=ids).execute()\<close> gives for the
  comma separated ids: the decoded response, or a fault. The library function \<open>build\<close>,
  which makes a client from a developer key, is a parameter of the constructor's model.
\<close>

type_synonym client = "string \<Rightarrow> error + pyval"

record video_metadata =
  index_next_video :: nat
  client :: client
  current_metadata :: pyval
  multi_metadata :: "pyval list"

text \<open>
  Iterating a value (\<open>for x in v\<close>, \<open>[x for x in v]\<close>): a list yields its elements, a
  dictionary its keys, a string its characters; \<open>None\<close>, a boolean and an integer
  cannot be iterated, and \<open>len\<close> of them raises \<open>TypeError\<close> as well. For the values
  that can be iterated, \<open>len\<close> is the number of elements yielded.
\<close>

fun py_iter :: "pyval \<Rightarrow> error + pyval list" where
  "py_iter (PList xs) = Inr xs"
| "py_iter (PDict kvs) = Inr (map (\<lambda>kv. PStr (fst kv)) kvs)"
| "py_iter (PStr s) = Inr (map (\<lambda>c. PStr [c]) s)"
| "py_iter PNone = Inl TypeError"
| "py_iter (PBool b) = Inl TypeError"
| "py_iter (PInt i) = Inl TypeError"

text \<open>
  \<open>_get_video_metadata\<close>. The \<open>items\<close> of the response go to
  \<open>_mark_unavailable_videos\<close> unchecked. That function only takes their \<open>len\<close> and
  iterates them, so whatever can be iterated is handled as the sequence it yields:
  empty \<open>items\<close> of any such kind (\<open>[]\<close>, \<open>{}\<close>, \<open>''\<close>) give one \<open>None\<close> per
  requested id, the keys of a dictionary or the characters of a string fail at
  \<open>vid_result["id"]\<close>, and \<open>len\<close> of \<open>None\<close> or of a number raises \<open>TypeError\<close>.
  \<open>self._multi_metadata[0]\<close> raises \<open>IndexError\<close> on an empty list.
\<close>

definition get_video_metadata :: "video_metadata \<Rightarrow> video_id \<Rightarrow> error + video_metadata" where
  "get_video_metadata self yt_id =
     (case client self (convert_list_to_comma_string yt_id) of
        Inl e \<Rightarrow> Inl e
      | Inr response \<Rightarrow>
          (case subscript response ''items'' of
             Inl e \<Rightarrow> Inl e
           | Inr result \<Rightarrow>
               (case py_iter result of
                  Inl e \<Rightarrow> Inl e
                | Inr vids_result \<Rightarrow>
                    (case mark_unavailable_videos (iter_video_id yt_id) vids_result of
                       Inl e \<Rightarrow> Inl e
                     | Inr [] \<Rightarrow> Inl IndexError
                     | Inr (m # ms) \<Rightarrow>
                         Inr (self\<lparr>multi_metadata := m # ms, current_metadata := m\<rparr>)))))"

text \<open>
  \<open>__init__(video_id, dev_key, json, client)\<close>. An absent \<open>json\<close> is \<open>PNone\<close>, an absent
  \<open>client\<close> is \<open>None\<close>; a client object is true in a condition. The client is settled
  first, and without a client and without a key the constructor raises \<open>ValueError\<close>
  before it looks at \<open>video_id\<close> or \<open>json\<close>.
\<close>

definition init ::
  "(string \<Rightarrow> error + client) \<Rightarrow> video_id \<Rightarrow> string \<Rightarrow> pyval \<Rightarrow> client option
     \<Rightarrow> error + video_metadata" where
  "init build vid dev_key json client_arg =
     (case (case client_arg of
              Some c \<Rightarrow> Inr c
            | None \<Rightarrow> if dev_key \<noteq> [] then build dev_key else Inl ValueError) of
        Inl e \<Rightarrow> Inl e
      | Inr c \<Rightarrow>
          (let self = \<lparr>index_next_video = 0, client = c,
                       current_metadata = PNone, multi_metadata = []\<rparr>
           in case (if truthy_video_id vid then get_video_metadata self vid
                    else Inr (self\<lparr>multi_metadata := []\<rparr>)) of
                Inl e \<Rightarrow> Inl e
              | Inr self' \<Rightarrow>
                  if truthy json
                  then (case subscript json ''items'' of
                          Inl e \<Rightarrow> Inl e
                        | Inr items \<Rightarrow>
                            (case py_iter items of
                               Inl e \<Rightarrow> Inl e
                             | Inr xs \<Rightarrow> Inr (self'\<lparr>multi_metadata := xs\<rparr>)))
                  else Inr self'))"

definition current_video :: "video_metadata \<Rightarrow> pyval" where
  "current_video self = current_metadata self"

definition available :: "video_metadata \<Rightarrow> bool" where
  "available self = (if truthy (current_video self) then True else False)"

definition len :: "video_metadata \<Rightarrow> nat" where
  "len self = length (multi_metadata self)"

definition iter :: "video_metadata \<Rightarrow> video_metadata" where
  "iter self = self\<lparr>index_next_video := 0\<rparr>"

text \<open>
  \<open>__next__\<close> returns the fault raised, if any, and the object as the call leaves it.
  The subscript raises before the assignment, so a failed call changes nothing. The
  index only counts up from 0, so it is never negative.
\<close>

definition next_video :: "video_metadata \<Rightarrow> error option \<times> video_metadata" where
  "next_video self =
     (if index_next_video self < length (multi_metadata self)
      then (None, self\<lparr>current_metadata := multi_metadata self ! index_next_video self,
                        index_next_video := index_next_video self + 1\<rparr>)
      else (Some StopIteration, self))"

text \<open>\<open>for _ in self: pass\<close> after the call of \<open>__iter__\<close>: advance until the signal.\<close>

function exhaust :: "video_metadata \<Rightarrow> video_metadata" where
  "exhaust self =
     (case next_video self of
        (None, self') \<Rightarrow> exhaust self'
      | (Some e, self') \<Rightarrow> self')"
  by pat_completeness auto
termination
  by (relation "measure (\<lambda>self. length (multi_metadata self) - index_next_video self)")
     (auto simp: next_video_def split: if_splits)

declare exhaust.simps [simp del]

text \<open>
  The argument of \<open>__getitem__\<close>: an integer or a slice \<open>lo:hi\<close> with step 1. Python
  counts a negative index from the end and clamps the bounds of a slice.
\<close>

datatype item = Index int | Slice "int option" "int option"

definition clamp_index :: "nat \<Rightarrow> int \<Rightarrow> nat" where
  "clamp_index n i = (if i < 0 then nat (max (i + int n) 0) else min (nat i) n)"

fun list_getitem :: "pyval list \<Rightarrow> item \<Rightarrow> error + pyval" where
  "list_getitem xs (Index i) =
     (let n = int (length xs); j = (if i < 0 then i + n else i)
      in if 0 \<le> j \<and> j < n then Inr (xs ! nat j) else Inl IndexError)"
| "list_getitem xs (Slice lo hi) =
     (let n = length xs;
          a = (case lo of None \<Rightarrow> 0 | Some i \<Rightarrow> clamp_index n i);
          b = (case hi of None \<Rightarrow> n | Some i \<Rightarrow> clamp_index n i)
      in Inr (PList (take (b - a) (drop a xs))))"

text \<open>
  \<open>__getitem__\<close>: the argument \<open>self._multi_metadata[item]\<close> is evaluated, then the
  constructor is called with \<open>json\<close> alone, the other parameters at their defaults.
\<close>

definition getitem ::
  "(string \<Rightarrow> error + client) \<Rightarrow> video_metadata \<Rightarrow> item \<Rightarrow> error + video_metadata" where
  "getitem build self item =
     (case list_getitem (multi_metadata self) item of
        Inl e \<Rightarrow> Inl e
      | Inr v \<Rightarrow> init build (IdStr []) [] (PDict [(''items'', v)]) None)"

subsection \<open>Field accessors\<close>

text \<open>\<open>try: ... except KeyError: return default\<close>.\<close>

definition except_KeyError :: "error + pyval \<Rightarrow> pyval \<Rightarrow> error + pyval" where
  "except_KeyError r dflt =
     (case r of Inl e \<Rightarrow> if e = KeyError then Inr dflt else Inl e | Inr v \<Rightarrow> Inr v)"

text \<open>\<open>self._current_video()["snippet"][k]\<close>.\<close>

definition snippet_item :: "video_metadata \<Rightarrow> string \<Rightarrow> error + pyval" where
  "snippet_item self k =
     (case subscript (current_video self) ''snippet'' of
        Inl e \<Rightarrow> Inl e
      | Inr snippet \<Rightarrow> subscript snippet k)"

definition id_video :: "video_metadata \<Rightarrow> error + pyval" where
  "id_video self = subscript (current_video self) ''id''"

definition category_id :: "video_metadata \<Rightarrow> error + pyval" where
  "category_id self =
     (case dict_get (current_video self) ''snippet'' of
        Inl e \<Rightarrow> Inl e
      | Inr snippet \<Rightarrow>
          if snippet = PNone then Inr (PStr [])
          else (case dict_get snippet ''categoryId'' of
                  Inl e \<Rightarrow> Inl e
                | Inr cid \<Rightarrow> if cid = PNone then Inr (PStr []) else Inr cid))"

definition CATEGORY_ID_TO_NAME :: "(string \<times> string) list" where
  "CATEGORY_ID_TO_NAME =
     [(''1'', ''Film & Animation''),
      (''2'', ''Autos & Vehicles''),
      (''10'', ''Music''),
      (''15'', ''Pets & Animals''),
      (''17'', ''Sports''),
      (''18'', ''ShortMovies''),
      (''19'', ''Travel & Events''),
      (''20'', ''Gaming''),
      (''21'', ''Videoblogging''),
      (''22'', ''People & Blogs''),
      (''23'', ''Comedy''),
      (''24'', ''Entertainment''),
      (''25'', ''News & Politics''),
      (''26'', ''Howto & Style''),
      (''27'', ''Education''),
      (''28'', ''Science & Technology''),
      (''29'', ''Nonprofits & Activism''),
      (''30'', ''Movies''),
      (''31'', ''Anime/Animation''),
      (''32'', ''Action/Adventure''),
      (''33'', ''Classics''),
      (''34'', ''Comedy''),
      (''35'', ''Documentary''),
      (''36'', ''Drama''),
      (''37'', ''Family''),
      (''38'', ''Foreign''),
      (''39'', ''Horror''),
      (''40'', ''Sci-Fi/Fantasy''),
      (''41'', ''Thriller''),
      (''42'', ''Shorts''),
      (''43'', ''Shows''),
      (''44'', ''Trailers'')]"

text \<open>
  \<open>_CATEGORY_ID_TO_NAME[k]\<close>: the keys are strings, so any other hashable key is
  missing; a list or a dictionary cannot be hashed.
\<close>

fun category_table_getitem :: "pyval \<Rightarrow> error + pyval" where
  "category_table_getitem (PStr k) =
     (case map_of CATEGORY_ID_TO_NAME k of None \<Rightarrow> Inl KeyError | Some n \<Rightarrow> Inr (PStr n))"
| "category_table_getitem (PList xs) = Inl TypeError"
| "category_table_getitem (PDict kvs) = Inl TypeError"
| "category_table_getitem PNone = Inl KeyError"
| "category_table_getitem (PBool b) = Inl KeyError"
| "category_table_getitem (PInt i) = Inl KeyError"

definition category_name :: "video_metadata \<Rightarrow> error + pyval" where
  "category_name self =
     (case category_id self of Inl e \<Rightarrow> Inl e | Inr k \<Rightarrow> category_table_getitem k)"

definition channel_id :: "video_metadata \<Rightarrow> error + pyval" where
  "channel_id self = except_KeyError (snippet_item self ''channelId'') (PStr [])"

definition channel_title :: "video_metadata \<Rightarrow> error + pyval" where
  "channel_title self = except_KeyError (snippet_item self ''channelTitle'') (PStr [])"

definition title :: "video_metadata \<Rightarrow> error + pyval" where
  "title self = snippet_item self ''title''"

definition keywords_video :: "video_metadata \<Rightarrow> error + pyval" where
  "keywords_video self = except_KeyError (snippet_item self ''tags'') (PList [])"

definition description :: "video_metadata \<Rightarrow> error + pyval" where
  "description self = snippet_item self ''description''"

definition time_published :: "video_metadata \<Rightarrow> error + pyval" where
  "time_published self = snippet_item self ''publishedAt''"

section \<open>Notions used by the properties, and example data\<close>

abbreviation (input) id_of :: "pyval \<Rightarrow> error + pyval" where
  "id_of v \<equiv> subscript v ''id''"

abbreviation (input) requested_id :: "string \<Rightarrow> error + pyval" where
  "requested_id r \<equiv> Inr (PStr r)"

text \<open>An entry of the output fits a requested id: it is \<open>None\<close> or carries that id.\<close>

definition matches_request :: "string \<Rightarrow> pyval \<Rightarrow> bool" where
  "matches_request r v = (v = PNone \<or> id_of v = Inr (PStr r))"

text \<open>\<open>reset(); advance(); advance(); reset()\<close>, the caller catching the end signal.\<close>

definition reset_advance_advance_reset :: "video_metadata \<Rightarrow> video_metadata" where
  "reset_advance_advance_reset self = iter (snd (next_video (snd (next_video (iter self)))))"

definition rec_A :: pyval where
  "rec_A = PDict [(''id'', PStr ''A''), (''snippet'', PDict [(''title'', PStr ''a'')])]"

definition rec_B :: pyval where
  "rec_B = PDict [(''id'', PStr ''B''), (''snippet'', PDict [(''title'', PStr ''b'')])]"

definition rec_C :: pyval where
  "rec_C = PDict [(''id'', PStr ''C''), (''snippet'', PDict [(''title'', PStr ''c'')])]"

text \<open>A present record whose \<open>snippet\<close> is \<open>None\<close> (a JSON \<open>null\<close>).\<close>

definition rec_null_snippet :: pyval where
  "rec_null_snippet = PDict [(''id'', PStr ''X''), (''snippet'', PNone)]"

definition rec_category :: "string \<Rightarrow> pyval" where
  "rec_category code =
     PDict [(''id'', PStr ''X''), (''snippet'', PDict [(''categoryId'', PStr code)])]"

definition no_client :: client where
  "no_client ids = Inl HttpError"

definition no_build :: "string \<Rightarrow> error + client" where
  "no_build dev_key = Inl HttpError"

text \<open>A container on the record \<open>v\<close>, the only one of its batch.\<close>

definition container_at :: "pyval \<Rightarrow> video_metadata" where
  "container_at v = \<lparr>index_next_video = 1, client = no_client,
                      current_metadata = v, multi_metadata = [v]\<rparr>"

section \<open>Properties of the reconciliation\<close>

lemma match_request_subseq:
  assumes "subseq (id_of v # ids) (map requested_id rs)"
  shows "\<exists>pre r rest. rs = pre @ r # rest
           \<and> match_request rs v acc = Inr (rest, acc @ replicate (length pre) PNone @ [v])
           \<and> id_of v = Inr (PStr r) \<and> subseq ids (map requested_id rest)"
  using assms
proof (induction rs arbitrary: acc)
  case Nil
  then show ?case by simp
next
  case (Cons r rs)
  show ?case
  proof (cases "id_of v = Inr (PStr r)")
    case True
    with Cons.prems have "subseq ids (map requested_id rs)" by simp
    with True have "(r # rs) = [] @ r # rs
        \<and> match_request (r # rs) v acc = Inr (rs, acc @ replicate (length ([]::string list)) PNone @ [v])
        \<and> id_of v = Inr (PStr r) \<and> subseq ids (map requested_id rs)"
      by simp
    then show ?thesis by blast
  next
    case False
    with Cons.prems have "subseq (id_of v # ids) (map requested_id rs)" by simp
    from Cons.IH [OF this, of "acc @ [PNone]"]
    obtain pre r' rest where h: "rs = pre @ r' # rest"
      "match_request rs v (acc @ [PNone]) = Inr (rest, (acc @ [PNone]) @ replicate (length pre) PNone @ [v])"
      "id_of v = Inr (PStr r')" "subseq ids (map requested_id rest)"
      by blast
    from h(3) False have ne: "PStr r \<noteq> PStr r'" by auto
    have "match_request (r # rs) v acc = match_request rs v (acc @ [PNone])"
      using h(3) ne by simp
    with h have "r # rs = (r # pre) @ r' # rest
        \<and> match_request (r # rs) v acc = Inr (rest, acc @ replicate (length (r # pre)) PNone @ [v])
        \<and> id_of v = Inr (PStr r') \<and> subseq ids (map requested_id rest)"
      by (simp add: replicate_app_Cons_same)
    then show ?thesis by blast
  qed
qed

lemma list_all2_replicate_PNone:
  "list_all2 matches_request pre (replicate (length pre) PNone)"
  by (induction pre) (simp_all add: matches_request_def)

lemma filter_replicate_PNone:
  "filter (\<lambda>v. v \<noteq> PNone) (replicate n PNone) = []"
  by simp

lemma for_results_subseq:
  assumes "subseq (map id_of S) (map requested_id R)"
  shows "\<exists>out. for_results R S acc = Inr (drop (length out) R, acc @ out)
           \<and> length out \<le> length R
           \<and> list_all2 matches_request (take (length out) R) out
           \<and> filter (\<lambda>v. v \<noteq> PNone) out = S"
  using assms
proof (induction S arbitrary: R acc)
  case Nil
  have "for_results R [] acc = Inr (drop (length ([]::pyval list)) R, acc @ [])
      \<and> length ([]::pyval list) \<le> length R
      \<and> list_all2 matches_request (take (length ([]::pyval list)) R) []
      \<and> filter (\<lambda>v. v \<noteq> PNone) [] = []"
    by simp
  then show ?case by blast
next
  case (Cons v S)
  from Cons.prems have "subseq (id_of v # map id_of S) (map requested_id R)" by simp
  from match_request_subseq [OF this, of acc]
  obtain pre r rest where m: "R = pre @ r # rest"
      "match_request R v acc = Inr (rest, acc @ replicate (length pre) PNone @ [v])"
      "id_of v = Inr (PStr r)" "subseq (map id_of S) (map requested_id rest)"
    by blast
  from Cons.IH [OF m(4), of "acc @ replicate (length pre) PNone @ [v]"]
  obtain out' where o: "for_results rest S (acc @ replicate (length pre) PNone @ [v])
        = Inr (drop (length out') rest, (acc @ replicate (length pre) PNone @ [v]) @ out')"
      "length out' \<le> length rest"
      "list_all2 matches_request (take (length out') rest) out'"
      "filter (\<lambda>v. v \<noteq> PNone) out' = S"
    by blast
  define out where "out = replicate (length pre) PNone @ [v] @ out'"
  have len: "length out = length pre + 1 + length out'" by (simp add: out_def)
  have vne: "v \<noteq> PNone" using m(3) by auto
  have 1: "for_results R (v # S) acc = Inr (drop (length out) R, acc @ out)"
    using m(1,2) o(1) by (simp add: out_def)
  have 2: "length out \<le> length R" using m(1) o(2) len by simp
  have tk: "take (length out) R = pre @ [r] @ take (length out') rest"
    using m(1) len by simp
  have "list_all2 matches_request (pre @ [r] @ take (length out') rest)
          (replicate (length pre) PNone @ [v] @ out')"
    by (intro list_all2_appendI list_all2_replicate_PNone o(3))
       (simp add: matches_request_def m(3))
  then have "list_all2 matches_request (pre @ [r] @ take (length out') rest) out"
    by (simp only: out_def)
  then have 3: "list_all2 matches_request (take (length out) R) out"
    by (simp only: tk)
  have 4: "filter (\<lambda>v. v \<noteq> PNone) out = v # S"
    using vne o(4) by (simp add: out_def)
  from 1 2 3 4 show ?case by blast
qed

text \<open>
  C1. When the ids of the returned records, in order, form a subsequence of the
  requested ids (so every record has an id, that id is requested, and the order is
  kept), the function returns a list as long as the request, every entry of which is
  \<open>None\<close> or a record whose id is the requested id at the same position; the records
  of the output, in order, are exactly the returned ones. That no id occurs twice
  among the returned records is not needed.
\<close>

theorem mark_unavailable_videos_aligned:
  assumes "subseq (map (\<lambda>v. subscript v ''id'') S) (map (\<lambda>r. Inr (PStr r)) R)"
  shows "\<exists>out. mark_unavailable_videos R S = Inr out \<and> length out = length R
           \<and> (\<forall>i<length R. out ! i \<noteq> PNone \<longrightarrow> subscript (out ! i) ''id'' = Inr (PStr (R ! i)))
           \<and> filter (\<lambda>v. v \<noteq> PNone) out = S"
proof (cases "S = []")
  case True
  then have "mark_unavailable_videos R S = Inr (replicate (length R) PNone)"
    by (simp add: mark_unavailable_videos_def)
  with True show ?thesis by simp
next
  case False
  from for_results_subseq [OF assms, of "[]"]
  obtain out where o: "for_results R S [] = Inr (drop (length out) R, out)"
      "length out \<le> length R"
      "list_all2 matches_request (take (length out) R) out"
      "filter (\<lambda>v. v \<noteq> PNone) out = S"
    by auto
  define res where "res = out @ map (\<lambda>_. PNone) (drop (length out) R)"
  have 1: "mark_unavailable_videos R S = Inr res"
    using False o(1) by (simp add: mark_unavailable_videos_def res_def)
  have 2: "length res = length R" using o(2) by (simp add: res_def)
  have 3: "subscript (res ! i) ''id'' = Inr (PStr (R ! i))"
    if "i < length R" "res ! i \<noteq> PNone" for i
  proof (cases "i < length out")
    case True
    then have "matches_request (take (length out) R ! i) (out ! i)"
      using o(3) by (simp only: list_all2_nthD2)
    with True that show ?thesis
      by (simp add: res_def nth_append matches_request_def)
  next
    case False
    with that have "res ! i = PNone"
      by (simp add: res_def nth_append)
    with that show ?thesis by simp
  qed
  have 4: "filter (\<lambda>v. v \<noteq> PNone) res = S"
    using o(4) by (simp add: res_def filter_empty_conv)
  from 1 2 3 4 show ?thesis by blast
qed

theorem mark_unavailable_videos_aligned_witness:
  "subseq (map (\<lambda>v. subscript v ''id'') [rec_A, rec_C]) (map (\<lambda>r. Inr (PStr r)) [''A'', ''B'', ''C''])
   \<and> mark_unavailable_videos [''A'', ''B'', ''C''] [rec_A, rec_C] = Inr [rec_A, PNone, rec_C]"
  using mark_unavailable_videos_aligned [of "[rec_A, rec_C]" "[''A'', ''B'', ''C'']"]
  by (simp add: rec_A_def rec_C_def mark_unavailable_videos_def)

lemma match_request_unmatched:
  "id_of v = Inr i \<Longrightarrow> i \<notin> PStr ` set rs \<Longrightarrow> match_request rs v acc = Inl StopIteration"
  by (induction rs arbitrary: acc) auto

lemma for_results_append:
  "for_results it (S1 @ S2) acc =
     (case for_results it S1 acc of Inl e \<Rightarrow> Inl e | Inr (it', acc') \<Rightarrow> for_results it' S2 acc')"
  by (induction S1 arbitrary: it acc) (auto split: sum.splits)

text \<open>
  C2. Suppose the records before \<open>v\<close> have been matched, leaving \<open>rest\<close> of the
  requested ids, and the id of \<open>v\<close> is not among \<open>rest\<close> (it was never requested, or
  it was passed already). Then the search for \<open>v\<close> runs off the end of the request
  iterator and the function raises \<open>StopIteration\<close>: it returns no list and raises
  no fault of its own.
\<close>

theorem mark_unavailable_videos_unmatched:
  assumes "for_results R S1 [] = Inr (rest, acc)"
    and "subscript v ''id'' = Inr i"
    and "i \<notin> PStr ` set rest"
  shows "mark_unavailable_videos R (S1 @ v # S2) = Inl StopIteration"
proof -
  have "match_request rest v acc = Inl StopIteration"
    using assms(2,3) by (rule match_request_unmatched)
  then have "for_results R (S1 @ v # S2) [] = Inl StopIteration"
    using assms(1) by (simp add: for_results_append)
  then show ?thesis by (simp add: mark_unavailable_videos_def)
qed

theorem mark_unavailable_videos_unmatched_witness:
  "for_results [''A'', ''B'', ''C''] [rec_B] [] = Inr ([''C''], [PNone, rec_B])
   \<and> subscript rec_A ''id'' = Inr (PStr ''A'')
   \<and> PStr ''A'' \<notin> PStr ` set [''C'']
   \<and> mark_unavailable_videos [''A'', ''B'', ''C''] ([rec_B] @ rec_A # []) = Inl StopIteration"
  using mark_unavailable_videos_unmatched [of "[''A'', ''B'', ''C'']" "[rec_B]" "[''C'']" "[PNone, rec_B]" rec_A "PStr ''A''" "[]"]
  by (simp add: rec_A_def rec_B_def)

text \<open>
  C6. With an empty response the function returns at once, before any matching:
  the result is one \<open>None\<close> per requested id, for every request list.
\<close>

theorem mark_unavailable_videos_empty_result:
  "mark_unavailable_videos R [] = Inr (replicate (length R) PNone)"
  by (simp add: mark_unavailable_videos_def)

section \<open>Properties of the container\<close>

subsection \<open>Construction and slicing\<close>

lemma init_no_auth: "init build vid [] json None = Inl ValueError"
  by (simp add: init_def)

lemma init_json_with_client:
  "init build (IdStr []) k (PDict [(''items'', PList items)]) (Some c)
     = Inr \<lparr>index_next_video = 0, client = c, current_metadata = PNone, multi_metadata = items\<rparr>"
  by (simp add: init_def)

text \<open>
  C3. \<open>__getitem__\<close> with a slice builds the sliced list and then calls the constructor
  with \<open>json\<close> alone. The constructor finds no client and no key and raises
  \<open>ValueError\<close>: for every container and every slice the call fails, and no new
  container is made.
\<close>

theorem getitem_slice_fails: "getitem build self (Slice lo hi) = Inl ValueError"
  by (simp add: getitem_def init_no_auth Let_def)

text \<open>
  C4. A constructor call with a response (\<open>json\<close>) and neither key nor client raises
  \<open>ValueError\<close>, whatever the items of the response are.
\<close>

theorem init_json_only_fails:
  "init build (IdStr []) [] (PDict [(''items'', PList items)]) None = Inl ValueError"
  by (rule init_no_auth)

subsection \<open>Traversal\<close>

lemma get_video_metadata_empty_items:
  assumes "client self (convert_list_to_comma_string (IdList (r # rs)))
             = Inr (PDict [(''items'', items)])"
    and "items = PList [] \<or> items = PDict [] \<or> items = PStr []"
  shows "get_video_metadata self (IdList (r # rs))
           = Inr (self\<lparr>multi_metadata := replicate (Suc (length rs)) PNone,
                        current_metadata := PNone\<rparr>)"
  using assms by (auto simp: get_video_metadata_def mark_unavailable_videos_def)

lemma get_video_metadata_index:
  "get_video_metadata s vid = Inr s' \<Longrightarrow> index_next_video s' = index_next_video s"
  by (auto simp: get_video_metadata_def split: sum.splits list.splits)

lemma init_index:
  assumes "init build vid dev_key json client_arg = Inr c"
  shows "index_next_video c = 0"
  using assms
  by (auto simp: init_def Let_def split: sum.splits option.splits if_splits
           dest!: get_video_metadata_index)

lemma reset_advance_advance_reset_state:
  "index_next_video (reset_advance_advance_reset c) = 0
   \<and> multi_metadata (reset_advance_advance_reset c) = multi_metadata c
   \<and> next_video (reset_advance_advance_reset c) = next_video (iter c)"
proof (cases "multi_metadata c")
  case Nil
  then show ?thesis
    by (simp add: reset_advance_advance_reset_def iter_def next_video_def)
next
  case (Cons x xs)
  then show ?thesis
    by (cases xs) (simp_all add: reset_advance_advance_reset_def iter_def next_video_def)
qed

text \<open>
  C8. For a container as its constructor returns it, \<open>reset(); advance(); advance();
  reset()\<close> leaves the cursor \<open>_index_next_video\<close> where construction left it (at 0) and
  the batch as it was, and the next advance does exactly what it does on the fresh
  container. The cursor is the index: the current record is not part of it, and stays
  the record read last.
\<close>

theorem reset_restores_cursor:
  assumes "init build vid dev_key json client_arg = Inr c"
  shows "index_next_video (reset_advance_advance_reset c) = index_next_video c
       \<and> multi_metadata (reset_advance_advance_reset c) = multi_metadata c
       \<and> next_video (reset_advance_advance_reset c) = next_video c"
proof -
  have 0: "index_next_video c = 0" using assms by (rule init_index)
  then have "iter c = c" by (simp add: iter_def)
  with 0 reset_advance_advance_reset_state [of c] show ?thesis by simp
qed

theorem reset_restores_cursor_witness:
  "init no_build (IdStr []) [] (PDict [(''items'', PList [rec_A, rec_B, rec_C])]) (Some no_client)
     = Inr \<lparr>index_next_video = 0, client = no_client, current_metadata = PNone,
            multi_metadata = [rec_A, rec_B, rec_C]\<rparr>
   \<and> index_next_video (reset_advance_advance_reset
        \<lparr>index_next_video = 0, client = no_client, current_metadata = PNone,
         multi_metadata = [rec_A, rec_B, rec_C]\<rparr>) = 0
   \<and> current_metadata (reset_advance_advance_reset
        \<lparr>index_next_video = 0, client = no_client, current_metadata = PNone,
         multi_metadata = [rec_A, rec_B, rec_C]\<rparr>) = rec_B"
  using reset_restores_cursor [of no_build "IdStr []" "[]"
      "PDict [(''items'', PList [rec_A, rec_B, rec_C])]" "Some no_client"
      "\<lparr>index_next_video = 0, client = no_client, current_metadata = PNone,
         multi_metadata = [rec_A, rec_B, rec_C]\<rparr>"]
  by (simp add: init_def reset_advance_advance_reset_def iter_def next_video_def)

lemma next_video_at_end:
  "length (multi_metadata c) \<le> index_next_video c \<Longrightarrow> next_video c = (Some StopIteration, c)"
  by (simp add: next_video_def)

lemma next_video_failure_keeps_state:
  "fst (next_video c) \<noteq> None \<Longrightarrow> snd (next_video c) = c"
  by (simp add: next_video_def split: if_splits)

lemma exhaust_reaches_end:
  "index_next_video c \<le> length (multi_metadata c) \<Longrightarrow>
     exhaust c = c\<lparr>current_metadata :=
                      (if index_next_video c < length (multi_metadata c)
                       then last (multi_metadata c) else current_metadata c),
                    index_next_video := length (multi_metadata c)\<rparr>"
proof (induction "length (multi_metadata c) - index_next_video c" arbitrary: c)
  case 0
  then have "index_next_video c = length (multi_metadata c)" by simp
  then show ?case
    by (subst exhaust.simps) (simp add: next_video_def)
next
  case (Suc n)
  define c' where "c' = c\<lparr>current_metadata := multi_metadata c ! index_next_video c,
                            index_next_video := index_next_video c + 1\<rparr>"
  from Suc.hyps(2) have lt: "index_next_video c < length (multi_metadata c)" by simp
  then have nx: "next_video c = (None, c')" by (simp add: next_video_def c'_def)
  have "n = length (multi_metadata c') - index_next_video c'"
    using Suc.hyps(2) by (simp add: c'_def)
  moreover have "index_next_video c' \<le> length (multi_metadata c')"
    using lt by (simp add: c'_def)
  ultimately have ih: "exhaust c' = c'\<lparr>current_metadata :=
                      (if index_next_video c' < length (multi_metadata c')
                       then last (multi_metadata c') else current_metadata c'),
                    index_next_video := length (multi_metadata c')\<rparr>"
    by (rule Suc.hyps(1))
  have ne: "multi_metadata c \<noteq> []" using lt by auto
  have "exhaust c = exhaust c'"
    by (subst exhaust.simps) (simp add: nx)
  also have "\<dots> = c\<lparr>current_metadata := last (multi_metadata c),
                     index_next_video := length (multi_metadata c)\<rparr>"
  proof (cases "index_next_video c + 1 < length (multi_metadata c)")
    case True
    then show ?thesis by (simp add: ih) (simp add: c'_def)
  next
    case False
    with lt have "index_next_video c = length (multi_metadata c) - 1" by simp
    then have "multi_metadata c ! index_next_video c = last (multi_metadata c)"
      using ne by (simp add: last_conv_nth)
    with False show ?thesis by (simp add: ih) (simp add: c'_def)
  qed
  finally show ?case using lt by simp
qed

lemma exhaust_iter:
  assumes "multi_metadata c \<noteq> []"
  shows "exhaust (iter c) = c\<lparr>current_metadata := last (multi_metadata c),
                               index_next_video := length (multi_metadata c)\<rparr>"
proof -
  have "index_next_video (iter c) \<le> length (multi_metadata (iter c))"
    by (simp add: iter_def)
  from exhaust_reaches_end [OF this] assms show ?thesis
    by (simp add: iter_def)
qed

text \<open>
  C10. An advance at or past the end of the batch raises \<open>StopIteration\<close> and leaves
  the object as it was; whenever an advance raises, the object is unchanged. So after
  a full traversal of a non-empty batch the failed advance leaves the last record
  current, and the accessors (here \<open>id\<close>) read that record.
\<close>

theorem next_video_past_end:
  "(length (multi_metadata c) \<le> index_next_video c \<longrightarrow> next_video c = (Some StopIteration, c))
   \<and> (fst (next_video c) \<noteq> None \<longrightarrow> snd (next_video c) = c)
   \<and> (multi_metadata c \<noteq> [] \<longrightarrow>
        next_video (exhaust (iter c)) = (Some StopIteration, exhaust (iter c))
        \<and> current_metadata (exhaust (iter c)) = last (multi_metadata c)
        \<and> id_video (exhaust (iter c)) = subscript (last (multi_metadata c)) ''id'')"
proof (intro conjI impI)
  assume "length (multi_metadata c) \<le> index_next_video c"
  then show "next_video c = (Some StopIteration, c)" by (rule next_video_at_end)
next
  assume "fst (next_video c) \<noteq> None"
  then show "snd (next_video c) = c" by (rule next_video_failure_keeps_state)
next
  assume ne: "multi_metadata c \<noteq> []"
  show "next_video (exhaust (iter c)) = (Some StopIteration, exhaust (iter c))"
    by (rule next_video_at_end) (simp add: exhaust_iter [OF ne])
  show "current_metadata (exhaust (iter c)) = last (multi_metadata c)"
    by (simp add: exhaust_iter [OF ne])
  show "id_video (exhaust (iter c)) = subscript (last (multi_metadata c)) ''id''"
    by (simp add: exhaust_iter [OF ne] id_video_def current_video_def)
qed

theorem next_video_past_end_witness:
  "length (multi_metadata (container_at rec_A)) \<le> index_next_video (container_at rec_A)
   \<and> next_video (container_at rec_A) = (Some StopIteration, container_at rec_A)
   \<and> fst (next_video (container_at rec_A)) \<noteq> None
   \<and> multi_metadata (container_at rec_A) \<noteq> []
   \<and> current_metadata (exhaust (iter (container_at rec_A))) = rec_A
   \<and> id_video (exhaust (iter (container_at rec_A))) = Inr (PStr ''A'')"
  using next_video_past_end [of "container_at rec_A"]
  by (simp add: container_at_def rec_A_def)

subsection \<open>Accessors\<close>

lemma category_table_missing:
  "code \<notin> fst ` set CATEGORY_ID_TO_NAME \<Longrightarrow> category_table_getitem (PStr code) = Inl KeyError"
  by (simp add: map_of_eq_None_iff [THEN iffD2])

lemma category_table_23: "category_table_getitem (PStr ''23'') = Inr (PStr ''Comedy'')"
  by (simp add: CATEGORY_ID_TO_NAME_def)

lemma category_table_24: "category_table_getitem (PStr ''24'') = Inr (PStr ''Entertainment'')"
  by (simp add: CATEGORY_ID_TO_NAME_def)

lemma category_table_34: "category_table_getitem (PStr ''34'') = Inr (PStr ''Comedy'')"
  by (simp add: CATEGORY_ID_TO_NAME_def)

lemma category_id_rec_category:
  "category_id (container_at (rec_category code)) = Inr (PStr code)"
  by (simp add: category_id_def container_at_def rec_category_def current_video_def)

text \<open>
  C5, as stated, fails: the table maps code 24 to Entertainment, not to Comedy.
\<close>

theorem category_name_24_counterexample:
  "category_name (container_at (rec_category ''24'')) = Inr (PStr ''Entertainment'')
   \<and> category_name (container_at (rec_category ''24'')) \<noteq> Inr (PStr ''Comedy'')"
  by (simp add: category_name_def category_id_rec_category category_table_24
        del: category_table_getitem.simps)

text \<open>
  C5, amended. The two codes that resolve to Comedy are 23 and 34; 24 resolves to
  Entertainment; a code that is not a key of the table raises \<open>KeyError\<close>.
\<close>

theorem category_name_lookup:
  assumes "category_id c = Inr (PStr code)"
  shows "(code = ''23'' \<or> code = ''34'' \<longrightarrow> category_name c = Inr (PStr ''Comedy''))
       \<and> (code = ''24'' \<longrightarrow> category_name c = Inr (PStr ''Entertainment''))
       \<and> (code \<notin> fst ` set CATEGORY_ID_TO_NAME \<longrightarrow> category_name c = Inl KeyError)"
  using assms
  by (auto simp: category_name_def category_table_23 category_table_24 category_table_34
        category_table_missing simp del: category_table_getitem.simps)

theorem category_name_lookup_witness:
  "category_id (container_at (rec_category ''23'')) = Inr (PStr ''23'')
   \<and> category_name (container_at (rec_category ''23'')) = Inr (PStr ''Comedy'')
   \<and> category_id (container_at (rec_category ''34'')) = Inr (PStr ''34'')
   \<and> category_name (container_at (rec_category ''34'')) = Inr (PStr ''Comedy'')
   \<and> category_id (container_at (rec_category ''24'')) = Inr (PStr ''24'')
   \<and> category_name (container_at (rec_category ''24'')) = Inr (PStr ''Entertainment'')
   \<and> category_id (container_at (rec_category ''999'')) = Inr (PStr ''999'')
   \<and> ''999'' \<notin> fst ` set CATEGORY_ID_TO_NAME
   \<and> category_name (container_at (rec_category ''999'')) = Inl KeyError"
proof -
  have n: "''999'' \<notin> fst ` set CATEGORY_ID_TO_NAME"
    by (simp add: CATEGORY_ID_TO_NAME_def)
  show ?thesis
    using category_name_lookup [OF category_id_rec_category [of "''23''"]]
      category_name_lookup [OF category_id_rec_category [of "''34''"]]
      category_name_lookup [OF category_id_rec_category [of "''24''"]]
      category_name_lookup [OF category_id_rec_category [of "''999''"]] n
    by (simp add: category_id_rec_category)
qed

text \<open>
  C7, as stated, fails: \<open>available\<close> tests the truth value of the current record, and
  an empty dictionary is a record that is present and false. Such a container is
  reached by constructing from a response whose only item is \<open>{}\<close> and advancing once.
\<close>

theorem available_empty_record_counterexample:
  "init no_build (IdStr []) [] (PDict [(''items'', PList [PDict []])]) (Some no_client)
     = Inr \<lparr>index_next_video = 0, client = no_client, current_metadata = PNone,
            multi_metadata = [PDict []]\<rparr>
   \<and> next_video \<lparr>index_next_video = 0, client = no_client, current_metadata = PNone,
            multi_metadata = [PDict []]\<rparr> = (None, container_at (PDict []))
   \<and> current_metadata (container_at (PDict [])) \<noteq> PNone
   \<and> \<not> available (container_at (PDict []))"
  by (simp add: init_def next_video_def container_at_def available_def current_video_def)

text \<open>
  C7, amended. On \<open>None\<close> as current record \<open>available\<close> is false and the mandatory
  accessors \<open>id\<close>, \<open>title\<close>, \<open>description\<close> and \<open>time_published\<close> fail (subscripting
  \<open>None\<close> raises \<open>TypeError\<close>). On a dictionary \<open>available\<close> is true exactly when the
  dictionary is not empty; it is never true on \<open>None\<close>.
\<close>

theorem available_and_mandatory_fields:
  "(current_metadata c = PNone \<longrightarrow>
      \<not> available c \<and> id_video c = Inl TypeError \<and> title c = Inl TypeError
      \<and> description c = Inl TypeError \<and> time_published c = Inl TypeError)
   \<and> (\<forall>kvs. current_metadata c = PDict kvs \<longrightarrow> available c = (kvs \<noteq> []))
   \<and> (available c \<longrightarrow> current_metadata c \<noteq> PNone)"
  by (auto simp: available_def current_video_def id_video_def title_def description_def
        time_published_def snippet_item_def)

theorem available_and_mandatory_fields_witness:
  "current_metadata (container_at PNone) = PNone
   \<and> \<not> available (container_at PNone)
   \<and> title (container_at PNone) = Inl TypeError
   \<and> current_metadata (container_at rec_A) = rec_A
   \<and> available (container_at rec_A)"
  using available_and_mandatory_fields [of "container_at PNone"]
    available_and_mandatory_fields [of "container_at rec_A"]
  by (simp add: container_at_def rec_A_def)

lemma optional_fields_no_snippet:
  assumes "current_metadata c = PDict kvs" and "map_of kvs ''snippet'' = None"
  shows "keywords_video c = Inr (PList [])" and "category_id c = Inr (PStr [])"
    and "channel_id c = Inr (PStr [])" and "channel_title c = Inr (PStr [])"
  using assms
  by (simp_all add: keywords_video_def category_id_def channel_id_def channel_title_def
        snippet_item_def except_KeyError_def current_video_def)

lemma optional_fields_snippet_without_key:
  assumes "current_metadata c = PDict kvs" and "map_of kvs ''snippet'' = Some (PDict sn)"
  shows "map_of sn ''tags'' = None \<Longrightarrow> keywords_video c = Inr (PList [])"
    and "map_of sn ''categoryId'' = None \<Longrightarrow> category_id c = Inr (PStr [])"
    and "map_of sn ''channelId'' = None \<Longrightarrow> channel_id c = Inr (PStr [])"
    and "map_of sn ''channelTitle'' = None \<Longrightarrow> channel_title c = Inr (PStr [])"
  using assms
  by (simp_all add: keywords_video_def category_id_def channel_id_def channel_title_def
        snippet_item_def except_KeyError_def current_video_def)

text \<open>
  C9 fails on the code. The accessors \<open>keywords\<close>, \<open>channel_id\<close> and \<open>channel_title\<close>
  catch \<open>KeyError\<close> only, so they give their default when the key \<open>snippet\<close> or the
  field is missing from a dictionary (the two lemmas above), but not when \<open>snippet\<close>
  is present and is not a dictionary. On the record \<open>{"id": "X", "snippet": None}\<close>,
  reached by constructing from a response with a client and advancing once, the
  record is available and has no tags, channel id or channel title, and the three
  accessors raise \<open>TypeError\<close>, while \<open>category_id\<close> returns the empty string there.
\<close>

theorem optional_accessors_null_snippet:
  "init no_build (IdStr []) [] (PDict [(''items'', PList [rec_null_snippet])]) (Some no_client)
     = Inr \<lparr>index_next_video = 0, client = no_client, current_metadata = PNone,
            multi_metadata = [rec_null_snippet]\<rparr>
   \<and> next_video \<lparr>index_next_video = 0, client = no_client, current_metadata = PNone,
            multi_metadata = [rec_null_snippet]\<rparr> = (None, container_at rec_null_snippet)
   \<and> available (container_at rec_null_snippet)
   \<and> keywords_video (container_at rec_null_snippet) = Inl TypeError
   \<and> channel_id (container_at rec_null_snippet) = Inl TypeError
   \<and> channel_title (container_at rec_null_snippet) = Inl TypeError
   \<and> category_id (container_at rec_null_snippet) = Inr (PStr [])"
  by (simp add: init_def next_video_def container_at_def rec_null_snippet_def available_def
        current_video_def keywords_video_def channel_id_def channel_title_def category_id_def
        snippet_item_def except_KeyError_def)

end
